theory Spec2Isabelle
  imports Complex_Main
begin

section \<open>The oligopoly example: matrices of the linear regulator\<close>

text \<open>
  The module \<^verbatim>\<open>examples/oligopoly.py\<close> builds the matrices of a discounted linear
  regulator from ten economic parameters, hands them to the LQ solver of the library and
  rewrites the solver's answer in terms of the observable state. Python and numpy floats
  are modelled by real numbers (no rounding, no overflow); the two places where a float
  computation leaves the real numbers are written out: a Python float division by zero
  raises, and a numpy scalar raised to the power -1 at zero gives an infinity.
\<close>

subsection \<open>Errors\<close>

datatype error =
    LinAlgError          \<comment> \<open>raised by \<^verbatim>\<open>scipy.linalg.inv\<close> on a singular matrix\<close>
  | ZeroDivisionError    \<comment> \<open>raised by the division of Python floats\<close>
  | SolverError          \<comment> \<open>any failure of the LQ solver\<close>

subsection \<open>Dense matrices\<close>

type_synonym vector = "real list"
type_synonym matrix = "real list list"

definition eye :: "nat \<Rightarrow> nat \<Rightarrow> matrix" where
  \<comment> \<open>\<^verbatim>\<open>np.eye(n, m)\<close>; \<^verbatim>\<open>np.eye(n)\<close> is \<open>eye n n\<close>\<close>
  "eye n m = map (\<lambda>i. map (\<lambda>j. if i = j then 1 else 0) [0..<m]) [0..<n]"

definition set_row :: "matrix \<Rightarrow> nat \<Rightarrow> vector \<Rightarrow> matrix" where
  \<comment> \<open>\<^verbatim>\<open>M[i, :] = r\<close>\<close>
  "set_row M i r = M[i := r]"

definition set_entry :: "matrix \<Rightarrow> nat \<Rightarrow> nat \<Rightarrow> real \<Rightarrow> matrix" where
  \<comment> \<open>\<^verbatim>\<open>M[i, j] = v\<close>\<close>
  "set_entry M i j v = M[i := (M ! i)[j := v]]"

definition transpose_mat :: "'a list list \<Rightarrow> 'a list list" where
  \<comment> \<open>\<^verbatim>\<open>M.T\<close> of a two-dimensional array\<close>
  "transpose_mat M =
     (case M of [] \<Rightarrow> [] | r # _ \<Rightarrow> map (\<lambda>j. map (\<lambda>row. row ! j) M) [0..<length r])"

definition dot_vec :: "vector \<Rightarrow> vector \<Rightarrow> real" where
  "dot_vec xs ys = sum_list (map2 (*) xs ys)"

definition dot :: "matrix \<Rightarrow> matrix \<Rightarrow> matrix" where
  \<comment> \<open>\<^verbatim>\<open>np.dot(M, N)\<close> of two-dimensional arrays\<close>
  "dot M N = map (\<lambda>r. map (\<lambda>col. dot_vec r col) (transpose_mat N)) M"

definition neg_mat :: "matrix \<Rightarrow> matrix" where
  \<comment> \<open>\<^verbatim>\<open>-M\<close>\<close>
  "neg_mat M = map (map uminus) M"

definition mat_dims :: "nat \<Rightarrow> nat \<Rightarrow> 'a list list \<Rightarrow> bool" where
  \<comment> \<open>the array has shape \<open>(n, m)\<close>\<close>
  "mat_dims n m M = (length M = n \<and> list_all (\<lambda>r. length r = m) M)"

subsection \<open>Matrix inversion\<close>

definition del_at :: "nat \<Rightarrow> 'a list \<Rightarrow> 'a list" where
  "del_at j xs = take j xs @ drop (Suc j) xs"

function det :: "matrix \<Rightarrow> real" where
  "det [] = 1"
| "det (r # rs) =
     sum_list (map (\<lambda>j. (- 1) ^ j * (r ! j) * det (map (del_at j) rs)) [0..<length r])"
  by pat_completeness auto
termination
  by (relation "measure length") auto

definition cofactor :: "matrix \<Rightarrow> nat \<Rightarrow> nat \<Rightarrow> real" where
  "cofactor M i j = (- 1) ^ (i + j) * det (map (del_at j) (del_at i M))"

definition la_inv :: "matrix \<Rightarrow> error + matrix" where
  \<comment> \<open>Modelled from the spec: \<^verbatim>\<open>scipy.linalg.inv\<close> is not part of the module. The
      inversion fails on a singular matrix and gives the inverse otherwise (here the
      adjugate divided by the determinant).\<close>
  "la_inv M =
     (if det M = 0 then Inl LinAlgError
      else Inr (map (\<lambda>i. map (\<lambda>j. cofactor M j i / det M) [0..<length M]) [0..<length M]))"

subsection \<open>The module-level names\<close>

text \<open>
  The parameter values are module-level names (\<^verbatim>\<open>a0 = 100.\<close> and so on); the
  functions of the module read them where their bodies mention them.
\<close>

record globals =
  a0 :: real
  a1 :: real
  rho :: real
  c_eps :: real
  c :: real
  d :: real
  e :: real
  g :: real
  h :: real
  beta :: real

definition py_div :: "real \<Rightarrow> real \<Rightarrow> error + real" where
  \<comment> \<open>\<^verbatim>\<open>x / y\<close> on Python floats\<close>
  "py_div x y = (if y = 0 then Inl ZeroDivisionError else Inr (x / y))"

subsection \<open>\<^verbatim>\<open>setup_matrices\<close>\<close>

definition Alhs :: "globals \<Rightarrow> matrix" where
  \<comment> \<open>\<^verbatim>\<open>Alhs = np.eye(5); Alhs[4, :] = np.array([a0-d, 1., -a1, -a1-h, c])\<close>\<close>
  "Alhs env = set_row (eye 5 5) 4 [a0 env - d env, 1, - a1 env, - a1 env - h env, c env]"

definition Brhs :: matrix where
  \<comment> \<open>\<^verbatim>\<open>Brhs = np.array([[0., 0., 1., 0., 0.]]).T\<close>\<close>
  "Brhs = transpose_mat [[0, 0, 1, 0, 0]]"

definition Arhs :: "globals \<Rightarrow> real \<Rightarrow> matrix" where
  \<comment> \<open>\<^verbatim>\<open>Arhs = np.eye(5); Arhs[1, 1] = rho; Arhs[3, 4] = 1.; Arhs[4, 4] = c / beta\<close>,
      the quotient \<open>c / beta\<close> being passed in\<close>
  "Arhs env q = set_entry (set_entry (set_entry (eye 5 5) 1 1 (rho env)) 3 4 1) 4 4 q"

definition R_mat :: "globals \<Rightarrow> matrix" where
  \<comment> \<open>\<^verbatim>\<open>R\<close> from equation (40)\<close>
  "R_mat env =
     [[0, 0, (a0 env - e env) / 2, 0, 0],
      [0, 0, 1 / 2, 0, 0],
      [(a0 env - e env) / 2, 1 / 2, - a1 env - 0.5 * g env, - a1 env / 2, 0],
      [0, 0, - a1 env / 2, 0, 0],
      [0, 0, 0, 0, 0]]"

definition Q_mat :: "globals \<Rightarrow> matrix" where
  \<comment> \<open>\<^verbatim>\<open>Q = np.array([[c/2]])\<close>\<close>
  "Q_mat env = [[c env / 2]]"

definition setup_matrices ::
  "globals \<Rightarrow> vector \<Rightarrow> error + (matrix \<times> matrix \<times> matrix \<times> matrix)" where
  \<comment> \<open>The body never mentions its argument \<open>params\<close>: every name it reads is a
      module-level one.\<close>
  "setup_matrices env params =
     (case la_inv (Alhs env) of
        Inl err \<Rightarrow> Inl err
      | Inr Alhsinv \<Rightarrow>
          (case py_div (c env) (beta env) of
             Inl err \<Rightarrow> Inl err
           | Inr q \<Rightarrow>
               Inr (dot Alhsinv (Arhs env q), dot Alhsinv Brhs, Q_mat env, R_mat env)))"

definition module_globals :: globals where
  \<comment> \<open>the parameter values assigned at module level\<close>
  "module_globals =
     \<lparr>a0 = 100, a1 = 1, rho = 0.8, c_eps = 0.2, c = 1, d = 20, e = 20, g = 0.2, h = 0.2,
      beta = 0.95\<rparr>"

definition module_params :: vector where
  \<comment> \<open>\<^verbatim>\<open>params = np.array([a0, a1, rho, c_eps, c, d, e, g, h, beta])\<close>\<close>
  "module_params = [100, 1, 0.8, 0.2, 1, 20, 20, 0.2, 0.2, 0.95]"

definition nonzero_rows :: "matrix \<Rightarrow> nat" where
  \<comment> \<open>how many rows of the array have a nonzero entry\<close>
  "nonzero_rows M = length (filter (\<lambda>r. \<not> list_all (\<lambda>x. x = 0) r) M)"

subsection \<open>\<^verbatim>\<open>find_PFd\<close>\<close>

text \<open>
  The class \<^verbatim>\<open>LQ\<close> of the library and its method \<^verbatim>\<open>stationary_values\<close> are not
  among the sources. The construction \<^verbatim>\<open>LQ(Q, R, A, B, beta=beta)\<close> followed by
  \<^verbatim>\<open>stationary_values()\<close> is a parameter \<open>lq\<close> of the functions below: it takes
  \<open>Q\<close>, \<open>R\<close>, \<open>A\<close>, \<open>B\<close> and the discount factor, and fails or returns \<open>(P, F, d)\<close>.
\<close>

type_synonym lq_solver =
  "matrix \<Rightarrow> matrix \<Rightarrow> matrix \<Rightarrow> matrix \<Rightarrow> real \<Rightarrow> error + (matrix \<times> matrix \<times> real)"

definition find_PFd ::
  "lq_solver \<Rightarrow> matrix \<Rightarrow> matrix \<Rightarrow> matrix \<Rightarrow> matrix \<Rightarrow> real \<Rightarrow> error + (matrix \<times> matrix \<times> real)"
  where
  "find_PFd lq A B Q R bet =
     (case lq Q (neg_mat R) A B bet of
        Inl err \<Rightarrow> Inl err
      | Inr (P, F, dd) \<Rightarrow> Inr (P, F, dd))"

subsection \<open>numpy scalars\<close>

text \<open>
  Arithmetic on numpy floats does not raise: a division by zero gives an infinity (with a
  warning), and the infinities and the not-a-number value then propagate. Finite values
  are real numbers as before; the sign of a zero is not modelled, so \<open>fpow_m1\<close> gives
  the result for the positive zero.
\<close>

datatype npfloat = Fin real | PInf | NInf | NaN

type_synonym fvector = "npfloat list"
type_synonym fmatrix = "npfloat list list"

fun is_finite :: "npfloat \<Rightarrow> bool" where
  "is_finite (Fin x) = True"
| "is_finite v = False"

fun fneg :: "npfloat \<Rightarrow> npfloat" where
  "fneg (Fin x) = Fin (- x)"
| "fneg PInf = NInf"
| "fneg NInf = PInf"
| "fneg NaN = NaN"

fun fadd :: "npfloat \<Rightarrow> npfloat \<Rightarrow> npfloat" where
  "fadd NaN v = NaN"
| "fadd v NaN = NaN"
| "fadd (Fin x) (Fin y) = Fin (x + y)"
| "fadd PInf NInf = NaN"
| "fadd NInf PInf = NaN"
| "fadd PInf v = PInf"
| "fadd v PInf = PInf"
| "fadd NInf v = NInf"
| "fadd v NInf = NInf"

definition fsub :: "npfloat \<Rightarrow> npfloat \<Rightarrow> npfloat" where
  "fsub u v = fadd u (fneg v)"

fun sign_of :: "npfloat \<Rightarrow> real" where
  "sign_of (Fin x) = sgn x"
| "sign_of PInf = 1"
| "sign_of NInf = - 1"
| "sign_of NaN = 0"

definition signed_inf :: "real \<Rightarrow> npfloat" where
  \<comment> \<open>the infinity of the given sign; zero times an infinity is not a number\<close>
  "signed_inf s = (if s = 0 then NaN else if 0 < s then PInf else NInf)"

fun fmul :: "npfloat \<Rightarrow> npfloat \<Rightarrow> npfloat" where
  "fmul NaN v = NaN"
| "fmul v NaN = NaN"
| "fmul (Fin x) (Fin y) = Fin (x * y)"
| "fmul u v = signed_inf (sign_of u * sign_of v)"

fun fpow_m1 :: "npfloat \<Rightarrow> npfloat" where
  \<comment> \<open>\<^verbatim>\<open>v**(-1)\<close> on a numpy scalar\<close>
  "fpow_m1 (Fin x) = (if x = 0 then PInf else Fin (1 / x))"
| "fpow_m1 PInf = Fin 0"
| "fpow_m1 NInf = Fin 0"
| "fpow_m1 NaN = NaN"

definition fm :: "matrix \<Rightarrow> fmatrix" where
  \<comment> \<open>an array of finite values\<close>
  "fm M = map (map Fin) M"

definition fdot_vec :: "fvector \<Rightarrow> fvector \<Rightarrow> npfloat" where
  "fdot_vec us vs = foldr fadd (map2 fmul us vs) (Fin 0)"

definition fdot :: "fmatrix \<Rightarrow> fmatrix \<Rightarrow> fmatrix" where
  \<comment> \<open>\<^verbatim>\<open>np.dot(M, N)\<close> on arrays that may hold infinities\<close>
  "fdot M N = map (\<lambda>r. map (\<lambda>col. fdot_vec r col) (transpose_mat N)) M"

definition mat_sub :: "matrix \<Rightarrow> matrix \<Rightarrow> matrix" where
  \<comment> \<open>\<^verbatim>\<open>M - N\<close>\<close>
  "mat_sub M N = map2 (map2 (-)) M N"

subsection \<open>\<^verbatim>\<open>solve_for_opt_policy\<close>\<close>

text \<open>
  The local names of steps 3 and 4, each as a function of what it is computed from.
  The solver returns a 5 by 5 array \<open>P\<close> and a 1 by 5 array \<open>F\<close>; the definitions
  follow the source on arrays of these shapes.
\<close>

definition P22 :: "matrix \<Rightarrow> real" where
  \<comment> \<open>\<^verbatim>\<open>P22 = P[-1, -1]\<close>\<close>
  "P22 P = last (last P)"

definition P21 :: "matrix \<Rightarrow> vector" where
  \<comment> \<open>\<^verbatim>\<open>P21 = P[-1, :-1]\<close>\<close>
  "P21 P = butlast (last P)"

definition P22inv :: "matrix \<Rightarrow> npfloat" where
  \<comment> \<open>\<^verbatim>\<open>P22inv = P22**(-1)\<close>, on the numpy scalar \<open>P22\<close>\<close>
  "P22inv P = fpow_m1 (Fin (P22 P))"

definition upper :: matrix where
  \<comment> \<open>\<^verbatim>\<open>upper = np.eye(4, 5)\<close>\<close>
  "upper = eye 4 5"

definition lower :: "matrix \<Rightarrow> fvector" where
  \<comment> \<open>\<^verbatim>\<open>lower = np.hstack([-P22inv*P21, P22inv])\<close>\<close>
  "lower P = map (\<lambda>x. fmul (fneg (P22inv P)) (Fin x)) (P21 P) @ [P22inv P]"

definition dotmat :: "matrix \<Rightarrow> fmatrix" where
  \<comment> \<open>\<^verbatim>\<open>dotmat = np.empty((5, 5)); dotmat[:-1, :] = upper; dotmat[-1, :] = lower\<close>:
      the two assignments fill every row of the new array\<close>
  "dotmat P = fm upper @ [lower P]"

definition coeffs :: "matrix \<Rightarrow> matrix \<Rightarrow> fmatrix" where
  \<comment> \<open>\<^verbatim>\<open>coeffs = np.dot(-F, dotmat)\<close>\<close>
  "coeffs P F = fdot (fm (neg_mat F)) (dotmat P)"

definition z0 :: "real \<Rightarrow> real \<Rightarrow> real \<Rightarrow> vector" where
  \<comment> \<open>\<^verbatim>\<open>z0 = np.array([1., eta0, Q0, q0])\<close>\<close>
  "z0 eta0 Q0 q0 = [1, eta0, Q0, q0]"

definition x0 :: "matrix \<Rightarrow> real \<Rightarrow> real \<Rightarrow> real \<Rightarrow> npfloat" where
  \<comment> \<open>\<^verbatim>\<open>x0 = -P22inv*np.dot(P21, z0)\<close>\<close>
  "x0 P eta0 Q0 q0 = fmul (fneg (P22inv P)) (Fin (dot_vec (P21 P) (z0 eta0 Q0 q0)))"

definition D0 :: "matrix \<Rightarrow> fvector" where
  \<comment> \<open>\<^verbatim>\<open>D0 = -np.dot(P22inv, P21)\<close>: a scalar times an array, then negated\<close>
  "D0 P = map (\<lambda>x. fneg (fmul (P22inv P) (Fin x))) (P21 P)"

definition experimental_block ::
  "matrix \<Rightarrow> matrix \<Rightarrow> matrix \<Rightarrow> matrix \<Rightarrow> npfloat \<times> fvector \<times> fvector" where
  \<comment> \<open>the lines after the TODO comment, giving
      \<open>(coeff_utm1, coeff_zt, coeff_ztm1)\<close>\<close>
  "experimental_block P F A B =
     (let part1 = eye 4 5 @ [last P];
          part2 = mat_sub A (dot B F);
          part3 = dotmat P;
          m = fdot (fm (dot part1 part2)) part3;
          m12 = butlast (last m);
          m22 = last (last m);
          f = fdot (fm (neg_mat F)) (dotmat P);
          f11 = butlast (last f);
          f12 = last (last f);
          coeff_utm1 = fmul (fmul f12 m22) (fpow_m1 f12);
          coeff_zt = butlast (coeffs P F ! 0);
          coeff_ztm1 =
            map (\<lambda>v. fmul f12 v)
              (map2 fsub m12 (map (\<lambda>v. fmul (fmul (fpow_m1 f12) m22) v) f11))
      in (coeff_utm1, coeff_zt, coeff_ztm1))"

definition solve_for_opt_policy ::
  "lq_solver \<Rightarrow> globals \<Rightarrow> vector \<Rightarrow> real \<Rightarrow> real \<Rightarrow> real \<Rightarrow>
     error + (matrix \<times> matrix \<times> fvector)" where
  \<comment> \<open>the discount factor passed to \<^verbatim>\<open>find_PFd\<close> is the module-level \<open>beta\<close>\<close>
  "solve_for_opt_policy lq env params eta0 Q0 q0 =
     (case setup_matrices env params of
        Inl err \<Rightarrow> Inl err
      | Inr (A, B, Q, R) \<Rightarrow>
          (case find_PFd lq A B Q R (beta env) of
             Inl err \<Rightarrow> Inl err
           | Inr (P, F, dd) \<Rightarrow>
               (let cfs = coeffs P F;
                    x = x0 P eta0 Q0 q0;
                    D = D0 P;
                    (coeff_utm1, coeff_zt, coeff_ztm1) = experimental_block P F A B
                in Inr (P, F, D))))"

definition solve_for_opt_policy_without_block ::
  "lq_solver \<Rightarrow> globals \<Rightarrow> vector \<Rightarrow> real \<Rightarrow> real \<Rightarrow> real \<Rightarrow>
     error + (matrix \<times> matrix \<times> fvector)" where
  \<comment> \<open>\<^verbatim>\<open>solve_for_opt_policy\<close> with the lines from the TODO comment to the
      \<^verbatim>\<open>return\<close> removed\<close>
  "solve_for_opt_policy_without_block lq env params eta0 Q0 q0 =
     (case setup_matrices env params of
        Inl err \<Rightarrow> Inl err
      | Inr (A, B, Q, R) \<Rightarrow>
          (case find_PFd lq A B Q R (beta env) of
             Inl err \<Rightarrow> Inl err
           | Inr (P, F, dd) \<Rightarrow>
               (let cfs = coeffs P F;
                    x = x0 P eta0 Q0 q0;
                    D = D0 P
                in Inr (P, F, D))))"

definition P_degenerate :: matrix where
  \<comment> \<open>a value-function matrix whose bottom-right entry is zero\<close>
  "P_degenerate =
     [[1, 0, 0, 0, 1], [0, 1, 0, 0, 2], [0, 0, 1, 0, 0], [0, 0, 0, 1, - 4], [1, 2, 0, - 4, 0]]"

definition P_example :: matrix where
  "P_example =
     [[1, 0, 0, 0, 1], [0, 1, 0, 0, 2], [0, 0, 1, 0, 0], [0, 0, 0, 1, - 4], [1, 2, 0, - 4, 2]]"

definition P_nonsym :: matrix where
  \<comment> \<open>a matrix whose last row differs from its last column\<close>
  "P_nonsym =
     [[1, 2, 3, 4, 5], [6, 7, 8, 9, 10], [11, 12, 13, 14, 15], [16, 17, 18, 19, 20],
      [3, - 1, 0, 5, 4]]"

definition F_example :: matrix where
  "F_example = [[1, 2, 3, 4, 5]]"

definition lq_const :: "matrix \<Rightarrow> matrix \<Rightarrow> lq_solver" where
  \<comment> \<open>a solver that returns the given \<open>P\<close> and \<open>F\<close>\<close>
  "lq_const P F = (\<lambda>Q R A B bet. Inr (P, F, 0))"

definition Alhsinv_closed :: "globals \<Rightarrow> matrix" where
  \<comment> \<open>the inverse of \<open>Alhs\<close> in closed form, for \<open>c \<noteq> 0\<close>\<close>
  "Alhsinv_closed env =
     [[1, 0, 0, 0, 0], [0, 1, 0, 0, 0], [0, 0, 1, 0, 0], [0, 0, 0, 1, 0],
      [- (a0 env - d env) / c env, - 1 / c env, a1 env / c env, (a1 env + h env) / c env,
       1 / c env]]"


section \<open>Properties\<close>

subsection \<open>Determinants and the inverse of \<open>Alhs\<close>\<close>

declare det.simps [simp del]

lemma upt4: "[0..<4] = [0, 1, 2, 3]"
  by code_simp

lemma upt5: "[0..<5] = [0, 1, 2, 3, 4]"
  by code_simp

lemma det2: "det [[x1, x2], [y1, y2]] = x1 * y2 - x2 * y1"
  by (simp add: det.simps del_at_def upt_conv_Cons)

lemma det3:
  "det [[x1, x2, x3], [y1, y2, y3], [z1, z2, z3]] =
     x1 * det [[y2, y3], [z2, z3]] - x2 * det [[y1, y3], [z1, z3]] + x3 * det [[y1, y2], [z1, z2]]"
  by (subst det.simps) (simp add: del_at_def upt_conv_Cons)

lemma det4:
  "det [[x1, x2, x3, x4], [y1, y2, y3, y4], [z1, z2, z3, z4], [w1, w2, w3, w4]] =
     x1 * det [[y2, y3, y4], [z2, z3, z4], [w2, w3, w4]]
   - x2 * det [[y1, y3, y4], [z1, z3, z4], [w1, w3, w4]]
   + x3 * det [[y1, y2, y4], [z1, z2, z4], [w1, w2, w4]]
   - x4 * det [[y1, y2, y3], [z1, z2, z3], [w1, w2, w3]]"
  by (subst det.simps) (simp add: del_at_def upt_conv_Cons)

lemma det5:
  "det [[x1, x2, x3, x4, x5], [y1, y2, y3, y4, y5], [z1, z2, z3, z4, z5],
        [w1, w2, w3, w4, w5], [v1, v2, v3, v4, v5]] =
     x1 * det [[y2, y3, y4, y5], [z2, z3, z4, z5], [w2, w3, w4, w5], [v2, v3, v4, v5]]
   - x2 * det [[y1, y3, y4, y5], [z1, z3, z4, z5], [w1, w3, w4, w5], [v1, v3, v4, v5]]
   + x3 * det [[y1, y2, y4, y5], [z1, z2, z4, z5], [w1, w2, w4, w5], [v1, v2, v4, v5]]
   - x4 * det [[y1, y2, y3, y5], [z1, z2, z3, z5], [w1, w2, w3, w5], [v1, v2, v3, v5]]
   + x5 * det [[y1, y2, y3, y4], [z1, z2, z3, z4], [w1, w2, w3, w4], [v1, v2, v3, v4]]"
  by (subst det.simps) (simp add: del_at_def upt_conv_Cons)

lemma Alhs_explicit:
  "Alhs env =
     [[1, 0, 0, 0, 0], [0, 1, 0, 0, 0], [0, 0, 1, 0, 0], [0, 0, 0, 1, 0],
      [a0 env - d env, 1, - a1 env, - a1 env - h env, c env]]"
  by (simp add: Alhs_def eye_def set_row_def upt5)

lemma Arhs_explicit:
  "Arhs env q =
     [[1, 0, 0, 0, 0], [0, rho env, 0, 0, 0], [0, 0, 1, 0, 0], [0, 0, 0, 1, 1],
      [0, 0, 0, 0, q]]"
  by (simp add: Arhs_def eye_def set_entry_def upt5)

lemma Brhs_explicit: "Brhs = [[0], [0], [1], [0], [0]]"
  by (simp add: Brhs_def transpose_mat_def upt5)

lemma det_Alhs: "det (Alhs env) = c env"
  unfolding Alhs_explicit by (simp add: det5 det4 det3 det2)

lemma la_inv_Alhs_singular: "c env = 0 \<Longrightarrow> la_inv (Alhs env) = Inl LinAlgError"
  by (simp add: la_inv_def det_Alhs)

lemma la_inv_Alhs:
  "c env \<noteq> 0 \<Longrightarrow> la_inv (Alhs env) = Inr (Alhsinv_closed env)"
  unfolding la_inv_def det_Alhs Alhsinv_closed_def
  unfolding Alhs_explicit
  by (simp add: cofactor_def del_at_def upt5 det4 det3 det2 field_simps)

lemma dot_5_5:
  "dot [r1, r2, r3, r4, r5]
       [[x1, x2, x3, x4, x5], [y1, y2, y3, y4, y5], [z1, z2, z3, z4, z5],
        [w1, w2, w3, w4, w5], [v1, v2, v3, v4, v5]] =
   map (\<lambda>r. [dot_vec r [x1, y1, z1, w1, v1], dot_vec r [x2, y2, z2, w2, v2],
              dot_vec r [x3, y3, z3, w3, v3], dot_vec r [x4, y4, z4, w4, v4],
              dot_vec r [x5, y5, z5, w5, v5]]) [r1, r2, r3, r4, r5]"
  by (simp add: dot_def transpose_mat_def upt5)

lemma eye_5_5:
  "eye 5 5 = [[1, 0, 0, 0, 0], [0, 1, 0, 0, 0], [0, 0, 1, 0, 0], [0, 0, 0, 1, 0], [0, 0, 0, 0, 1]]"
  by (simp add: eye_def upt5)

lemma Alhsinv_right: "c env \<noteq> 0 \<Longrightarrow> dot (Alhs env) (Alhsinv_closed env) = eye 5 5"
  unfolding Alhs_explicit Alhsinv_closed_def eye_5_5 dot_5_5
  by (simp add: dot_vec_def field_simps)

lemma Alhsinv_left: "c env \<noteq> 0 \<Longrightarrow> dot (Alhsinv_closed env) (Alhs env) = eye 5 5"
  unfolding Alhs_explicit Alhsinv_closed_def eye_5_5 dot_5_5
  by (simp add: dot_vec_def field_simps)

lemma setup_matrices_success:
  "c env \<noteq> 0 \<Longrightarrow> beta env \<noteq> 0 \<Longrightarrow>
   setup_matrices env params =
     Inr (dot (Alhsinv_closed env) (Arhs env (c env / beta env)),
          dot (Alhsinv_closed env) Brhs, Q_mat env, R_mat env)"
  by (simp add: setup_matrices_def la_inv_Alhs py_div_def)

lemma setup_matrices_cases:
  "setup_matrices env params =
     (if c env = 0 then Inl LinAlgError
      else if beta env = 0 then Inl ZeroDivisionError
      else Inr (dot (Alhsinv_closed env) (Arhs env (c env / beta env)),
                dot (Alhsinv_closed env) Brhs, Q_mat env, R_mat env))"
  by (simp add: setup_matrices_def la_inv_Alhs la_inv_Alhs_singular py_div_def)

text \<open>
  C1, as the code has it. Whenever \<open>Alhs\<close> is invertible and the module-level
  \<open>beta\<close> is not zero, \<^verbatim>\<open>setup_matrices\<close> returns \<open>A = Alhs\<inverse> Arhs\<close> and
  \<open>B = Alhs\<inverse> [0,0,1,0,0]\<^sup>T\<close>, where \<open>Alhs\<close> is the identity of size 5 but for its
  last row \<open>[a0-d, 1, -a1, -a1-h, c]\<close>, \<open>Arhs\<close> is the identity but for the entries
  \<open>(1,1) = rho\<close>, \<open>(3,4) = 1\<close> and \<open>(4,4) = c/beta\<close>, and the inverse is a
  two-sided inverse of \<open>Alhs\<close>. The values are those of the module-level names.
\<close>

theorem setup_matrices_A_B:
  assumes "det (Alhs env) \<noteq> 0" and "beta env \<noteq> 0"
  shows "Alhs env =
           [[1, 0, 0, 0, 0], [0, 1, 0, 0, 0], [0, 0, 1, 0, 0], [0, 0, 0, 1, 0],
            [a0 env - d env, 1, - a1 env, - a1 env - h env, c env]]
       \<and> Arhs env (c env / beta env) =
           [[1, 0, 0, 0, 0], [0, rho env, 0, 0, 0], [0, 0, 1, 0, 0], [0, 0, 0, 1, 1],
            [0, 0, 0, 0, c env / beta env]]
       \<and> (\<exists>Alhsinv A B Q R.
             la_inv (Alhs env) = Inr Alhsinv
           \<and> dot (Alhs env) Alhsinv = eye 5 5 \<and> dot Alhsinv (Alhs env) = eye 5 5
           \<and> setup_matrices env params = Inr (A, B, Q, R)
           \<and> A = dot Alhsinv (Arhs env (c env / beta env))
           \<and> B = dot Alhsinv [[0], [0], [1], [0], [0]])"
proof -
  from assms(1) have cnz: "c env \<noteq> 0"
    by (simp add: det_Alhs)
  have "la_inv (Alhs env) = Inr (Alhsinv_closed env)"
    using cnz by (rule la_inv_Alhs)
  moreover have "dot (Alhs env) (Alhsinv_closed env) = eye 5 5"
    using cnz by (rule Alhsinv_right)
  moreover have "dot (Alhsinv_closed env) (Alhs env) = eye 5 5"
    using cnz by (rule Alhsinv_left)
  moreover have "setup_matrices env params =
     Inr (dot (Alhsinv_closed env) (Arhs env (c env / beta env)),
          dot (Alhsinv_closed env) [[0], [0], [1], [0], [0]], Q_mat env, R_mat env)"
    using cnz assms(2) by (simp add: setup_matrices_success Brhs_explicit)
  ultimately show ?thesis
    using Alhs_explicit Arhs_explicit by blast
qed

theorem setup_matrices_A_B_witness:
  "det (Alhs module_globals) \<noteq> 0 \<and> beta module_globals \<noteq> 0
   \<and> (\<exists>Alhsinv A B Q R.
             la_inv (Alhs module_globals) = Inr Alhsinv
           \<and> dot (Alhs module_globals) Alhsinv = eye 5 5
           \<and> dot Alhsinv (Alhs module_globals) = eye 5 5
           \<and> setup_matrices module_globals module_params = Inr (A, B, Q, R)
           \<and> A = dot Alhsinv (Arhs module_globals (c module_globals / beta module_globals))
           \<and> B = dot Alhsinv [[0], [0], [1], [0], [0]])"
proof -
  have h1: "det (Alhs module_globals) \<noteq> 0"
    by (simp add: det_Alhs module_globals_def)
  have h2: "beta module_globals \<noteq> 0"
    by (simp add: module_globals_def)
  show ?thesis
    using h1 h2 setup_matrices_A_B [OF h1 h2, of module_params] by blast
qed

text \<open>
  C1 as stated fails where \<open>beta = 0\<close>: \<open>Alhs\<close> is invertible (its determinant is
  \<open>c = 1\<close>), and the division \<open>c / beta\<close> of Python floats raises before anything is
  returned.
\<close>

theorem setup_matrices_zero_beta:
  "det (Alhs (module_globals\<lparr>beta := 0\<rparr>)) = 1
   \<and> setup_matrices (module_globals\<lparr>beta := 0\<rparr>) module_params = Inl ZeroDivisionError"
  by (simp add: det_Alhs setup_matrices_cases module_globals_def)

subsection \<open>The matrices returned by \<^verbatim>\<open>setup_matrices\<close>\<close>

lemma R_mat_symmetric: "transpose_mat (R_mat env) = R_mat env"
  by (simp add: R_mat_def transpose_mat_def upt5)

lemma dot_Alhsinv_Brhs:
  "dot (Alhsinv_closed env) Brhs = [[0], [0], [1], [0], [a1 env / c env]]"
  by (simp add: Alhsinv_closed_def Brhs_explicit dot_def dot_vec_def transpose_mat_def)

lemma setup_matrices_Inr:
  assumes "setup_matrices env params = Inr (A, B, Q, R)"
  shows "c env \<noteq> 0" and "beta env \<noteq> 0"
    and "A = dot (Alhsinv_closed env) (Arhs env (c env / beta env))"
    and "B = [[0], [0], [1], [0], [a1 env / c env]]"
    and "Q = Q_mat env" and "R = R_mat env"
  using assms by (auto simp: setup_matrices_cases dot_Alhsinv_Brhs split: if_splits)

text \<open>
  C4. The determinant of \<open>Alhs\<close> is \<open>c\<close>. Whenever \<open>Alhs\<close> is singular, in
  particular whenever \<open>c = 0\<close>, \<^verbatim>\<open>setup_matrices\<close> fails at the inversion with the
  inversion's error and returns no matrices.
\<close>

theorem setup_matrices_singular:
  "det (Alhs env) = c env
   \<and> (det (Alhs env) = 0 \<longrightarrow> setup_matrices env params = Inl LinAlgError)
   \<and> (c env = 0 \<longrightarrow> setup_matrices env params = Inl LinAlgError)"
  by (simp add: det_Alhs setup_matrices_cases)

theorem setup_matrices_singular_witness:
  "c (module_globals\<lparr>c := 0\<rparr>) = 0
   \<and> det (Alhs (module_globals\<lparr>c := 0\<rparr>)) = 0
   \<and> setup_matrices (module_globals\<lparr>c := 0\<rparr>) module_params = Inl LinAlgError"
  using setup_matrices_singular [of "module_globals\<lparr>c := 0\<rparr>" module_params]
  by simp

text \<open>
  C5, as the code has it. When \<^verbatim>\<open>setup_matrices\<close> succeeds, the returned \<open>B\<close> is the
  column \<open>[0, 0, 1, 0, a1/c]\<close>: rows 0, 1 and 3 are zero, row 2 is one, and the last
  row is \<open>a1/c\<close>. So \<open>B\<close> has exactly one nonzero row exactly when \<open>a1 = 0\<close>, and two
  otherwise. With the module's values it has two, which refutes C5 as stated.
\<close>

theorem setup_matrices_B_rows:
  assumes "setup_matrices env params = Inr (A, B, Q, R)"
  shows "B = [[0], [0], [1], [0], [a1 env / c env]]
       \<and> (nonzero_rows B = 1 \<longleftrightarrow> a1 env = 0)
       \<and> (a1 env \<noteq> 0 \<longrightarrow> nonzero_rows B = 2)"
proof -
  have cnz: "c env \<noteq> 0" and B: "B = [[0], [0], [1], [0], [a1 env / c env]]"
    using setup_matrices_Inr [OF assms] by simp_all
  show ?thesis
    using cnz by (simp add: B nonzero_rows_def)
qed

theorem setup_matrices_B_two_rows:
  "(case setup_matrices module_globals module_params of
      Inl err \<Rightarrow> None
    | Inr (A, B, Q, R) \<Rightarrow> Some (B, nonzero_rows B)) = Some ([[0], [0], [1], [0], [1]], 2)"
  by (simp add: setup_matrices_cases dot_Alhsinv_Brhs nonzero_rows_def module_globals_def)

theorem setup_matrices_B_rows_witness:
  "\<exists>A B Q R. setup_matrices (module_globals\<lparr>a1 := 0\<rparr>) module_params = Inr (A, B, Q, R)
     \<and> B = [[0], [0], [1], [0], [0]] \<and> nonzero_rows B = 1"
proof -
  obtain A B Q R where
    ok: "setup_matrices (module_globals\<lparr>a1 := 0\<rparr>) module_params = Inr (A, B, Q, R)"
    by (simp add: setup_matrices_cases module_globals_def)
  from setup_matrices_B_rows [OF ok] have "B = [[0], [0], [1], [0], [0]] \<and> nonzero_rows B = 1"
    by (simp add: module_globals_def nonzero_rows_def)
  with ok show ?thesis by blast
qed

text \<open>
  C6. Whenever \<^verbatim>\<open>setup_matrices\<close> returns, the state-cost matrix \<open>R\<close> equals its
  transpose, its entries \<open>(0,2)\<close> and \<open>(2,0)\<close> are both \<open>(a0-e)/2\<close> and its entries
  \<open>(1,2)\<close> and \<open>(2,1)\<close> are both \<open>1/2\<close>.
\<close>

theorem setup_matrices_R_symmetric:
  assumes "setup_matrices env params = Inr (A, B, Q, R)"
  shows "transpose_mat R = R
       \<and> R ! 0 ! 2 = (a0 env - e env) / 2 \<and> R ! 2 ! 0 = (a0 env - e env) / 2
       \<and> R ! 1 ! 2 = 1 / 2 \<and> R ! 2 ! 1 = 1 / 2"
proof -
  have R: "R = R_mat env"
    using setup_matrices_Inr [OF assms] by simp
  show ?thesis
    unfolding R using R_mat_symmetric by (simp add: R_mat_def)
qed

theorem setup_matrices_R_symmetric_witness:
  "\<exists>A B Q R. setup_matrices module_globals module_params = Inr (A, B, Q, R)
     \<and> transpose_mat R = R \<and> R ! 0 ! 2 = 40 \<and> R ! 2 ! 0 = 40
     \<and> R ! 1 ! 2 = 1 / 2 \<and> R ! 2 ! 1 = 1 / 2"
proof -
  obtain A B Q R where
    ok: "setup_matrices module_globals module_params = Inr (A, B, Q, R)"
    by (simp add: setup_matrices_cases module_globals_def)
  from setup_matrices_R_symmetric [OF ok]
  have "transpose_mat R = R \<and> R ! 0 ! 2 = 40 \<and> R ! 2 ! 0 = 40
     \<and> R ! 1 ! 2 = 1 / 2 \<and> R ! 2 ! 1 = 1 / 2"
    by (simp add: module_globals_def)
  with ok show ?thesis by blast
qed

lemma dot_Alhsinv_Arhs_dims:
  "mat_dims 5 5 (dot (Alhsinv_closed env) (Arhs env q))"
  by (simp add: Alhsinv_closed_def Arhs_explicit dot_5_5 mat_dims_def)

text \<open>
  C7. With the module's parameter values \<^verbatim>\<open>setup_matrices\<close> returns a 5 by 5 \<open>A\<close>, a
  5 by 1 \<open>B\<close>, \<open>Q = [[0.5]]\<close> and a symmetric 5 by 5 \<open>R\<close> whose entries \<open>(0,2)\<close>
  and \<open>(2,0)\<close> are 40 and whose entries \<open>(1,2)\<close> and \<open>(2,1)\<close> are 0.5.
\<close>

theorem setup_matrices_module_values:
  "\<exists>A B Q R. setup_matrices module_globals module_params = Inr (A, B, Q, R)
     \<and> mat_dims 5 5 A \<and> mat_dims 5 1 B \<and> Q = [[0.5]]
     \<and> mat_dims 5 5 R \<and> transpose_mat R = R
     \<and> R ! 0 ! 2 = 40 \<and> R ! 2 ! 0 = 40 \<and> R ! 1 ! 2 = 0.5 \<and> R ! 2 ! 1 = 0.5"
proof -
  have nz: "c module_globals \<noteq> 0" "beta module_globals \<noteq> 0"
    by (simp_all add: module_globals_def)
  have ok: "setup_matrices module_globals module_params =
     Inr (dot (Alhsinv_closed module_globals)
            (Arhs module_globals (c module_globals / beta module_globals)),
          dot (Alhsinv_closed module_globals) Brhs, Q_mat module_globals, R_mat module_globals)"
    using nz by (rule setup_matrices_success)
  have dB: "mat_dims 5 1 (dot (Alhsinv_closed module_globals) Brhs)"
    by (simp add: dot_Alhsinv_Brhs mat_dims_def)
  have Q: "Q_mat module_globals = [[0.5]]"
    by (simp add: Q_mat_def module_globals_def)
  have R: "mat_dims 5 5 (R_mat module_globals)"
    "R_mat module_globals ! 0 ! 2 = 40" "R_mat module_globals ! 2 ! 0 = 40"
    "R_mat module_globals ! 1 ! 2 = 0.5" "R_mat module_globals ! 2 ! 1 = 0.5"
    by (simp_all add: R_mat_def mat_dims_def module_globals_def)
  show ?thesis
    using ok dot_Alhsinv_Arhs_dims dB Q R R_mat_symmetric by blast
qed

lemma setup_matrices_any_params: "setup_matrices env params = setup_matrices env params'"
  by (simp add: setup_matrices_def)

lemma setup_matrices_reads_globals:
  "setup_matrices (module_globals\<lparr>c := 2\<rparr>) module_params \<noteq>
   setup_matrices module_globals module_params"
  by (simp add: setup_matrices_cases Q_mat_def module_globals_def)

text \<open>
  C9. The result of \<^verbatim>\<open>setup_matrices\<close> does not depend on its argument at all and
  does depend on the module-level names: called with a parameter array whose \<open>c\<close> is 2,
  it returns what it returns for the module's own array, with \<open>Q = [[1/2]]\<close> computed
  from the module-level \<open>c = 1\<close>. Its output is therefore not determined by the
  \<open>params\<close> it receives.
\<close>

theorem setup_matrices_ignores_params:
  "setup_matrices module_globals [100, 1, 0.8, 0.2, 2, 20, 20, 0.2, 0.2, 0.95] =
     setup_matrices module_globals module_params
   \<and> (\<exists>A B R. setup_matrices module_globals [100, 1, 0.8, 0.2, 2, 20, 20, 0.2, 0.2, 0.95] =
        Inr (A, B, [[1 / 2]], R))"
  by (simp add: setup_matrices_cases Q_mat_def module_globals_def)

text \<open>
  C2. \<^verbatim>\<open>find_PFd\<close> calls the solver with \<open>Q\<close>, the negated \<open>R\<close>, \<open>A\<close>, \<open>B\<close> and
  the discount factor, and returns what the solver gives (its triple, or its failure)
  unchanged.
\<close>

theorem find_PFd_negates_R:
  "find_PFd lq A B Q R bet = lq Q (neg_mat R) A B bet
   \<and> neg_mat R = map (map (\<lambda>x. - x)) R"
  by (simp add: find_PFd_def neg_mat_def split: sum.splits prod.splits)

subsection \<open>The policy returned by \<^verbatim>\<open>solve_for_opt_policy\<close>\<close>

lemma length_5_explicit:
  assumes "length xs = 5"
  shows "\<exists>x1 x2 x3 x4 x5. xs = [x1, x2, x3, x4, x5]"
proof -
  from assms have "length xs = Suc (Suc (Suc (Suc (Suc 0))))"
    by simp
  then show ?thesis
    by (auto simp: length_Suc_conv)
qed

lemma last_row_length:
  assumes "mat_dims n m M" and "0 < n"
  shows "length (last M) = m"
proof -
  from assms have "M \<noteq> []"
    by (auto simp: mat_dims_def)
  then have "last M \<in> set M"
    by simp
  with assms(1) show ?thesis
    by (simp add: mat_dims_def list_all_iff)
qed

lemma solve_for_opt_policy_Inr:
  assumes "setup_matrices env params = Inr (A, B, Q, R)"
    and "lq Q (neg_mat R) A B (beta env) = Inr (P, F, dd)"
  shows "solve_for_opt_policy lq env params eta0 Q0 q0 = Inr (P, F, D0 P)"
  using assms by (simp add: solve_for_opt_policy_def find_PFd_def Let_def split: prod.splits)

lemma inf_times_not_finite: "\<not> is_finite (fneg (fmul PInf (Fin x)))"
  by (simp add: signed_inf_def sgn_real_def)

lemma setup_matrices_module_ok:
  "\<exists>A B Q R. setup_matrices module_globals module_params = Inr (A, B, Q, R)"
  by (simp add: setup_matrices_cases module_globals_def)

text \<open>
  C3, as the code has it. When the solver returns a 5 by 5 matrix \<open>P\<close> whose
  bottom-right entry \<open>P22\<close> is zero, \<^verbatim>\<open>solve_for_opt_policy\<close> raises nothing: the numpy
  power \<open>P22**(-1)\<close> is an infinity, the function returns \<open>(P, F, D0)\<close>, and each of
  the four entries of \<open>D0\<close> is an infinity or not a number.
\<close>

theorem solve_for_opt_policy_zero_P22:
  assumes "setup_matrices env params = Inr (A, B, Q, R)"
    and "lq Q (neg_mat R) A B (beta env) = Inr (P, F, dd)"
    and "mat_dims 5 5 P" and "P22 P = 0"
  shows "solve_for_opt_policy lq env params eta0 Q0 q0 = Inr (P, F, D0 P)
       \<and> P22inv P = PInf
       \<and> length (D0 P) = 4 \<and> list_all (\<lambda>v. \<not> is_finite v) (D0 P)"
proof -
  have inv: "P22inv P = PInf"
    using assms(4) by (simp add: P22inv_def)
  have "length (last P) = 5"
    using assms(3) by (rule last_row_length) simp
  then have len: "length (D0 P) = 4"
    by (simp add: D0_def P21_def)
  have "list_all (\<lambda>v. \<not> is_finite v) (D0 P)"
    unfolding D0_def inv list_all_iff using inf_times_not_finite by auto
  with inv len solve_for_opt_policy_Inr [where lq = lq, OF assms(1,2)] show ?thesis
    by simp
qed

theorem solve_for_opt_policy_zero_P22_witness:
  "mat_dims 5 5 P_degenerate \<and> P22 P_degenerate = 0
   \<and> solve_for_opt_policy (lq_const P_degenerate F_example) module_globals module_params 1 2 3 =
       Inr (P_degenerate, F_example, D0 P_degenerate)
   \<and> P22inv P_degenerate = PInf
   \<and> length (D0 P_degenerate) = 4 \<and> list_all (\<lambda>v. \<not> is_finite v) (D0 P_degenerate)"
proof -
  obtain A B Q R where
    ok: "setup_matrices module_globals module_params = Inr (A, B, Q, R)"
    using setup_matrices_module_ok by blast
  have lq: "lq_const P_degenerate F_example Q (neg_mat R) A B (beta module_globals) =
      Inr (P_degenerate, F_example, 0)"
    by (simp add: lq_const_def)
  have dims: "mat_dims 5 5 P_degenerate"
    by (simp add: mat_dims_def P_degenerate_def)
  have zero: "P22 P_degenerate = 0"
    by (simp add: P22_def P_degenerate_def)
  show ?thesis
    using dims zero solve_for_opt_policy_zero_P22
      [where lq = "lq_const P_degenerate F_example" and ?eta0.0 = 1 and ?Q0.0 = 2 and ?q0.0 = 3,
        OF ok lq dims zero] by simp
qed

text \<open>
  C3 as stated fails: for a \<open>P\<close> with \<open>P22 = 0\<close> no error reaches the caller, and
  the returned \<open>D0\<close> holds infinities and a not-a-number value.
\<close>

theorem solve_for_opt_policy_returns_inf:
  "P22 P_degenerate = 0
   \<and> solve_for_opt_policy (lq_const P_degenerate F_example) module_globals module_params 0 0 0 =
       Inr (P_degenerate, F_example, [NInf, NInf, NaN, PInf])"
proof -
  obtain A B Q R where
    ok: "setup_matrices module_globals module_params = Inr (A, B, Q, R)"
    using setup_matrices_module_ok by blast
  have lq: "lq_const P_degenerate F_example Q (neg_mat R) A B (beta module_globals) =
      Inr (P_degenerate, F_example, 0)"
    by (simp add: lq_const_def)
  have "D0 P_degenerate = [NInf, NInf, NaN, PInf]"
    by (simp add: D0_def P22inv_def P22_def P21_def P_degenerate_def signed_inf_def)
  moreover have "P22 P_degenerate = 0"
    by (simp add: P22_def P_degenerate_def)
  ultimately show ?thesis
    using solve_for_opt_policy_Inr [where lq = "lq_const P_degenerate F_example", OF ok lq]
    by simp
qed

text \<open>
  C10. Whenever \<^verbatim>\<open>solve_for_opt_policy\<close> succeeds, the function with the experimental
  block after the TODO comment removed returns the same \<open>(P, F, D0)\<close>.
\<close>

theorem experimental_block_no_effect:
  assumes "solve_for_opt_policy lq env params eta0 Q0 q0 = Inr res"
  shows "solve_for_opt_policy_without_block lq env params eta0 Q0 q0 = Inr res"
  using assms
  by (auto simp: solve_for_opt_policy_def solve_for_opt_policy_without_block_def Let_def
      split: sum.splits prod.splits)

theorem experimental_block_no_effect_witness:
  "solve_for_opt_policy (lq_const P_example F_example) module_globals module_params 0 0 0 =
     Inr (P_example, F_example, [Fin (- (1 / 2)), Fin (- 1), Fin 0, Fin 2])
   \<and> solve_for_opt_policy_without_block (lq_const P_example F_example) module_globals
       module_params 0 0 0 =
     Inr (P_example, F_example, [Fin (- (1 / 2)), Fin (- 1), Fin 0, Fin 2])"
proof -
  obtain A B Q R where
    ok: "setup_matrices module_globals module_params = Inr (A, B, Q, R)"
    using setup_matrices_module_ok by blast
  have lq: "lq_const P_example F_example Q (neg_mat R) A B (beta module_globals) =
      Inr (P_example, F_example, 0)"
    by (simp add: lq_const_def)
  have "D0 P_example = [Fin (- (1 / 2)), Fin (- 1), Fin 0, Fin 2]"
    by (simp add: D0_def P22inv_def P22_def P21_def P_example_def)
  with solve_for_opt_policy_Inr [where lq = "lq_const P_example F_example", OF ok lq]
  have full: "solve_for_opt_policy (lq_const P_example F_example) module_globals module_params
      0 0 0 = Inr (P_example, F_example, [Fin (- (1 / 2)), Fin (- 1), Fin 0, Fin 2])"
    by simp
  from full experimental_block_no_effect [OF full] show ?thesis
    by simp
qed

lemma fdot_row_5_5:
  "fdot [[Fin y1, Fin y2, Fin y3, Fin y4, Fin y5]]
        [[Fin 1, Fin 0, Fin 0, Fin 0, Fin 0], [Fin 0, Fin 1, Fin 0, Fin 0, Fin 0],
         [Fin 0, Fin 0, Fin 1, Fin 0, Fin 0], [Fin 0, Fin 0, Fin 0, Fin 1, Fin 0],
         [Fin x1, Fin x2, Fin x3, Fin x4, Fin x5]] =
   map (map Fin)
     (dot [[y1, y2, y3, y4, y5]]
        [[1, 0, 0, 0, 0], [0, 1, 0, 0, 0], [0, 0, 1, 0, 0], [0, 0, 0, 1, 0],
         [x1, x2, x3, x4, x5]])"
  by (simp add: fdot_def dot_def fdot_vec_def dot_vec_def transpose_mat_def upt5)

text \<open>
  C8. When the solver returns a 5 by 5 matrix \<open>P\<close> and a 1 by 5 gain \<open>F\<close>, then
  \<open>P22\<close> is the entry \<open>P[4][4]\<close> and \<open>P21\<close> is the first four entries of the last
  row \<open>P[4]\<close>. When moreover \<open>P22\<close> is nonzero, then \<open>P22inv = 1/P22\<close>; \<open>dotmat\<close>
  has the first four rows of the identity of size 5 on top and the last row
  \<open>[-P22inv * P21, P22inv]\<close>; \<open>coeffs\<close> is \<open>-F\<close> times \<open>dotmat\<close>;
  \<open>z0 = [1, eta0, Q0, q0]\<close>; \<open>x0 = -P22inv * (P21 . z0)\<close>; \<open>D0 = -P22inv * P21\<close>; and
  the function returns \<open>(P, F, D0)\<close>.
\<close>

theorem solve_for_opt_policy_transform:
  assumes "setup_matrices env params = Inr (A, B, Q, R)"
    and "lq Q (neg_mat R) A B (beta env) = Inr (P, F, dd)"
    and "mat_dims 5 5 P" and "mat_dims 1 5 F" and "P22 P \<noteq> 0"
  shows "P22 P = P ! 4 ! 4 \<and> P21 P = take 4 (P ! 4)
       \<and> P22inv P = Fin (1 / (P ! 4 ! 4))
       \<and> dotmat P =
           fm (take 4 (eye 5 5) @
               [map (\<lambda>x. - (1 / (P ! 4 ! 4)) * x) (take 4 (P ! 4)) @ [1 / (P ! 4 ! 4)]])
       \<and> coeffs P F =
           fm (dot (neg_mat F)
                 (take 4 (eye 5 5) @
                  [map (\<lambda>x. - (1 / (P ! 4 ! 4)) * x) (take 4 (P ! 4)) @ [1 / (P ! 4 ! 4)]]))
       \<and> z0 eta0 Q0 q0 = [1, eta0, Q0, q0]
       \<and> x0 P eta0 Q0 q0 =
           Fin (- (1 / (P ! 4 ! 4)) * dot_vec (take 4 (P ! 4)) [1, eta0, Q0, q0])
       \<and> D0 P = map (\<lambda>x. Fin (- (1 / (P ! 4 ! 4)) * x)) (take 4 (P ! 4))
       \<and> solve_for_opt_policy lq env params eta0 Q0 q0 = Inr (P, F, D0 P)"
proof -
  have lenP: "length P = 5"
    using assms(3) by (simp add: mat_dims_def)
  then have "P \<noteq> []"
    by auto
  then have lastP: "last P = P ! 4"
    using lenP by (simp add: last_conv_nth)
  have lenrow: "length (last P) = 5"
    using assms(3) by (rule last_row_length) simp
  then obtain p1 p2 p3 p4 p5 where row: "last P = [p1, p2, p3, p4, p5]"
    using length_5_explicit by blast
  have p22: "P22 P = P ! 4 ! 4"
    using row lastP by (simp add: P22_def)
  have p21: "P21 P = take 4 (P ! 4)"
    using row lastP by (simp add: P21_def)
  have inv: "P22inv P = Fin (1 / P22 P)"
    using assms(5) by (simp add: P22inv_def)
  have "length F = 1" and "length (last F) = 5"
    using assms(4) last_row_length [of 1 5 F] by (simp_all add: mat_dims_def)
  then obtain f1 f2 f3 f4 f5 where F: "F = [[f1, f2, f3, f4, f5]]"
    using length_5_explicit [of "last F"] by (cases F) auto
  have dm: "dotmat P =
      fm (take 4 (eye 5 5) @ [map (\<lambda>x. - (1 / P22 P) * x) (P21 P) @ [1 / P22 P]])"
    by (simp add: dotmat_def lower_def upper_def inv fm_def eye_def upt4 upt5)
  have cf: "coeffs P F =
      fm (dot (neg_mat F)
            (take 4 (eye 5 5) @ [map (\<lambda>x. - (1 / P22 P) * x) (P21 P) @ [1 / P22 P]]))"
    unfolding coeffs_def dm
    by (simp add: F P21_def row neg_mat_def eye_5_5 fdot_row_5_5 fm_def)
  have x: "x0 P eta0 Q0 q0 = Fin (- (1 / P22 P) * dot_vec (P21 P) [1, eta0, Q0, q0])"
    by (simp add: x0_def inv z0_def)
  have D: "D0 P = map (\<lambda>x. Fin (- (1 / P22 P) * x)) (P21 P)"
    by (simp add: D0_def inv)
  have ret: "solve_for_opt_policy lq env params eta0 Q0 q0 = Inr (P, F, D0 P)"
    using solve_for_opt_policy_Inr [where lq = lq, OF assms(1,2)] .
  have z: "z0 eta0 Q0 q0 = [1, eta0, Q0, q0]"
    by (simp add: z0_def)
  show ?thesis
    using p22 p21 inv dm cf x D ret z unfolding p22 [symmetric] p21 [symmetric]
    by simp
qed

theorem solve_for_opt_policy_transform_witness:
  "mat_dims 5 5 P_nonsym \<and> mat_dims 1 5 F_example \<and> P22 P_nonsym \<noteq> 0
   \<and> P22 P_nonsym = 4 \<and> P21 P_nonsym = [3, - 1, 0, 5]
   \<and> P22inv P_nonsym = Fin (1 / 4)
   \<and> dotmat P_nonsym =
       fm [[1, 0, 0, 0, 0], [0, 1, 0, 0, 0], [0, 0, 1, 0, 0], [0, 0, 0, 1, 0],
           [- (3 / 4), 1 / 4, 0, - (5 / 4), 1 / 4]]
   \<and> coeffs P_nonsym F_example = fm [[11 / 4, - (13 / 4), - 3, 9 / 4, - (5 / 4)]]
   \<and> x0 P_nonsym 1 2 3 = Fin (- (17 / 4))
   \<and> D0 P_nonsym = [Fin (- (3 / 4)), Fin (1 / 4), Fin 0, Fin (- (5 / 4))]
   \<and> solve_for_opt_policy (lq_const P_nonsym F_example) module_globals module_params 1 2 3 =
       Inr (P_nonsym, F_example, D0 P_nonsym)"
proof -
  obtain A B Q R where
    ok: "setup_matrices module_globals module_params = Inr (A, B, Q, R)"
    using setup_matrices_module_ok by blast
  have lq: "lq_const P_nonsym F_example Q (neg_mat R) A B (beta module_globals) =
      Inr (P_nonsym, F_example, 0)"
    by (simp add: lq_const_def)
  have dP: "mat_dims 5 5 P_nonsym"
    by (simp add: mat_dims_def P_nonsym_def)
  have dF: "mat_dims 1 5 F_example"
    by (simp add: mat_dims_def F_example_def)
  have nz: "P22 P_nonsym \<noteq> 0"
    by (simp add: P22_def P_nonsym_def)
  have v: "P_nonsym ! 4 ! 4 = 4" "take 4 (P_nonsym ! 4) = [3, - 1, 0, 5]"
    by (simp_all add: P_nonsym_def)
  have dt: "dot (neg_mat F_example)
        [[1, 0, 0, 0, 0], [0, 1, 0, 0, 0], [0, 0, 1, 0, 0], [0, 0, 0, 1, 0],
         [- (3 / 4), 1 / 4, 0, - (5 / 4), 1 / 4]] = [[11 / 4, - (13 / 4), - 3, 9 / 4, - (5 / 4)]]"
    by (simp add: F_example_def neg_mat_def dot_def dot_vec_def transpose_mat_def upt5)
  show ?thesis
    using dP dF nz
      solve_for_opt_policy_transform
        [where lq = "lq_const P_nonsym F_example" and ?eta0.0 = 1 and ?Q0.0 = 2 and ?q0.0 = 3,
          OF ok lq dP dF nz]
    by (simp add: v eye_5_5 dt dot_vec_def)
qed

end
